theory Spec2Isabelle
  imports Main "HOL-Library.Sublist" "HOL-Library.AList"
begin

section \<open>Values and errors of the embedded TypeScript\<close>

text \<open>
  A TypeScript type \<open>T | null | undefined\<close> is a value that is \<open>undefined\<close>, \<open>null\<close>
  or some other value; \<open>'a\<close> stands for the values that are neither.
  An optional parameter that is left out is \<open>JUndefined\<close>.
\<close>

datatype 'a nullable = JUndefined | JNull | JValue 'a

text \<open>
  A string is the list of its characters, and \<open>===\<close> on two strings is equality of
  the lists.
\<close>

text \<open>
  A raised exception is a value: \<open>throw new Error(m)\<close> is \<open>Inl (Error m)\<close>, a normal
  return of \<open>v\<close> is \<open>Inr v\<close>. \<open>TypeError\<close> is what the language runtime itself raises.
\<close>

datatype js_error = Error string | TypeError string

text \<open>
  The truthiness of a \<open>string | null | undefined\<close>, as \<open>message || fallback\<close> tests it:
  only a non-empty string is truthy.
\<close>

fun or_default :: "string nullable \<Rightarrow> string \<Rightarrow> string" where
  "or_default (JValue m) fallback = (if m = [] then fallback else m)"
| "or_default JNull fallback = fallback"
| "or_default JUndefined fallback = fallback"

section \<open>src/mods/utils/flow.ts\<close>

subsection \<open>assertExhaustiveCheck\<close>

text \<open>
  \<open>assertExhaustiveCheck(notValid, errorMessage = `There was an unhandled case for the
  value: "${notValid}"`)\<close> throws \<open>new Error(errorMessage)\<close>. The default of the second
  parameter is evaluated only when the argument is left out (\<open>None\<close>); it converts
  \<open>notValid\<close> to a string with the runtime's ToString, which is the parameter \<open>toStr\<close>
  and can itself raise (for a Symbol). The function has no normal return.
\<close>

definition unhandled_case_message :: "string \<Rightarrow> string" where
  "unhandled_case_message s =
     ''There was an unhandled case for the value: '' @ [CHR 0x22] @ s @ [CHR 0x22]"

definition assertExhaustiveCheck ::
  "('a \<Rightarrow> js_error + string) \<Rightarrow> 'a \<Rightarrow> string option \<Rightarrow> js_error + unit" where
  "assertExhaustiveCheck toStr notValid errorMessage =
     (case errorMessage of
        Some m \<Rightarrow> Inl (Error m)
      | None \<Rightarrow>
          (case toStr notValid of
             Inl e \<Rightarrow> Inl e
           | Inr s \<Rightarrow> Inl (Error (unhandled_case_message s))))"

subsection \<open>convertToTransformType\<close>

text \<open>
  The \<open>switch\<close> compares the string with each case label by strict equality; the ten
  labels share one \<open>return coercedType\<close>. The default arm holds the expression statement
  \<open>coercedType as never\<close>, which is erased at compile time, and \<open>return null\<close>.
\<close>

definition convertToTransformType :: "string \<Rightarrow> js_error + string nullable" where
  "convertToTransformType type =
     (let coercedType = type in
      if coercedType = ''merge-call-node''
         \<or> coercedType = ''merge-function''
         \<or> coercedType = ''focus-subtree''
         \<or> coercedType = ''focus-function''
         \<or> coercedType = ''focus-category''
         \<or> coercedType = ''collapse-resource''
         \<or> coercedType = ''collapse-direct-recursion''
         \<or> coercedType = ''collapse-indirect-recursion''
         \<or> coercedType = ''collapse-function-subtree''
         \<or> coercedType = ''drop-function''
      then Inr (JValue coercedType)
      else Inr JNull)"

text \<open>The ten literal values of the type \<open>TransformType\<close>, as the specification lists them.\<close>

definition transform_types :: "string list" where
  "transform_types =
     [''merge-call-node'', ''merge-function'', ''focus-subtree'', ''focus-function'',
      ''focus-category'', ''collapse-resource'', ''collapse-direct-recursion'',
      ''collapse-indirect-recursion'', ''collapse-function-subtree'', ''drop-function'']"

subsection \<open>ensureExists\<close>

definition ensureExists :: "'a nullable \<Rightarrow> string nullable \<Rightarrow> js_error + 'a" where
  "ensureExists item message =
     (case item of
        JNull \<Rightarrow> Inl (Error (or_default message ''Expected an item to exist, and it was null.''))
      | JUndefined \<Rightarrow>
          Inl (Error (or_default message ''Expected an item to exist, and it was undefined.''))
      | JValue v \<Rightarrow> Inr v)"

subsection \<open>getFirstItemFromSet\<close>

text \<open>
  A \<open>Set<T>\<close> is the list of its members in insertion order, without duplicates; that is
  the order in which \<open>set.values()\<close> yields them. \<open>next()\<close> on an iterator with nothing
  left returns \<open>{value: undefined, done: true}\<close>, and the code reads \<open>.value\<close> of whatever
  \<open>next()\<close> returned. A member can itself be \<open>undefined\<close> or \<open>null\<close>.
\<close>

definition getFirstItemFromSet :: "'a nullable list \<Rightarrow> 'a nullable" where
  "getFirstItemFromSet s = (case s of [] \<Rightarrow> JUndefined | x # _ \<Rightarrow> x)"

subsection \<open>Objects in a store\<close>

text \<open>
  \<open>objectMap\<close> and \<open>immutableUpdate\<close> create an object and assign to it, and the claims
  about them speak of the input staying as it was, so objects live in a store: a list of
  objects, an address being an index into it. A value is \<open>undefined\<close>, \<open>null\<close>, a primitive
  (\<open>Prim\<close>; its type \<open>'p\<close> is left open) or a reference to an object (\<open>Ref\<close>).
  An object is its own enumerable string-keyed data properties, in the order
  \<open>Object.entries\<close> lists them, and its prototype (\<open>None\<close> for \<open>null\<close>). Accessor
  properties, non-enumerable and symbol-keyed properties of user objects are not modelled.
  A key that is new to an object goes to the end of its list; the engine's rule that
  integer-like keys are listed first is not modelled, and the fields of an object that
  was built from several sources are only ever compared as a map.
  Address \<open>0\<close> holds \<open>Object.prototype\<close>, whose one modelled feature is its accessor
  property \<open>__proto__\<close>.
\<close>

type_synonym addr = nat

datatype 'p cell = Prim 'p | Ref addr

type_synonym 'p jsval = "'p cell nullable"

record 'p jsobj =
  props :: "(string \<times> 'p jsval) list"
  proto :: "addr option"

type_synonym 'p heap = "'p jsobj list"

definition ObjectPrototype :: addr where
  "ObjectPrototype = 0"

text \<open>The object literal \<open>{}\<close>: a new object with no own property, inheriting from
  \<open>Object.prototype\<close>, at the next free address.\<close>

definition empty_object :: "'p jsobj" where
  "empty_object = \<lparr>props = [], proto = Some ObjectPrototype\<rparr>"

definition alloc :: "'p heap \<Rightarrow> 'p jsobj \<Rightarrow> 'p heap \<times> addr" where
  "alloc h obj = (h @ [obj], length h)"

text \<open>
  An assignment \<open>target[key] = v\<close> to a key the target does not own walks the prototype
  chain. For the key \<open>__proto__\<close> the walk ends at the first object that owns a data
  property of that name (then the assignment creates an own property on the target), or
  at \<open>Object.prototype\<close>, whose \<open>__proto__\<close> is an accessor: then its setter runs instead.
  \<open>reaches_proto_setter h n p\<close> walks at most \<open>n\<close> links from the prototype \<open>p\<close>; a
  chain has no cycle, so the number of objects in the store is enough.
\<close>

fun reaches_proto_setter :: "'p heap \<Rightarrow> nat \<Rightarrow> addr option \<Rightarrow> bool" where
  "reaches_proto_setter h 0 p = False"
| "reaches_proto_setter h (Suc n) None = False"
| "reaches_proto_setter h (Suc n) (Some a) =
     (if a = ObjectPrototype then True
      else if length h \<le> a then False
      else if ''__proto__'' \<in> set (map fst (props (h ! a))) then False
      else reaches_proto_setter h n (proto (h ! a)))"

text \<open>
  The setter of \<open>Object.prototype.__proto__\<close>: an object or \<open>null\<close> becomes the prototype of
  the receiver, any other value is ignored; no own property is created in either case.
  (The receivers below are freshly created objects, which are on no prototype chain, so
  the setter's refusal of a cyclic chain cannot occur.)
\<close>

definition proto_setter :: "'p heap \<Rightarrow> addr \<Rightarrow> 'p jsval \<Rightarrow> 'p heap" where
  "proto_setter h t v =
     (case v of
        JNull \<Rightarrow> h[t := (h ! t)\<lparr>proto := None\<rparr>]
      | JValue (Ref r) \<Rightarrow> h[t := (h ! t)\<lparr>proto := Some r\<rparr>]
      | _ \<Rightarrow> h)"

text \<open>
  \<open>define_prop\<close> is the creation of an own data property (what \<open>Object.fromEntries\<close> does
  for each entry): the value of an existing key is replaced in place, a new key goes to
  the end. \<open>set_prop\<close> is the assignment \<open>target[key] = v\<close>.
\<close>

definition define_prop :: "'p heap \<Rightarrow> addr \<Rightarrow> string \<Rightarrow> 'p jsval \<Rightarrow> 'p heap" where
  "define_prop h t k v = h[t := (h ! t)\<lparr>props := AList.update k v (props (h ! t))\<rparr>]"

definition set_prop :: "'p heap \<Rightarrow> addr \<Rightarrow> string \<Rightarrow> 'p jsval \<Rightarrow> 'p heap" where
  "set_prop h t k v =
     (if k = ''__proto__'' \<and> k \<notin> set (map fst (props (h ! t)))
         \<and> reaches_proto_setter h (length h) (proto (h ! t))
      then proto_setter h t v
      else define_prop h t k v)"

subsection \<open>objectEntries, objectMap, immutableUpdate\<close>

text \<open>
  \<open>Object.entries(object)\<close>: the own enumerable string-keyed properties as key-value
  pairs. The array it returns is used as a value only and is a list here.
\<close>

definition objectEntries :: "'p heap \<Rightarrow> addr \<Rightarrow> (string \<times> 'p jsval) list" where
  "objectEntries h object = props (h ! object)"

text \<open>
  \<open>const result = {}; for (const [key, value] of objectEntries(object)) result[key] =
  fn(value, key); return result\<close>. The callback is a function of its two arguments.
  The result is the store after the call and the address of \<open>result\<close>.
\<close>

definition objectMap ::
  "'p heap \<Rightarrow> addr \<Rightarrow> ('p jsval \<Rightarrow> string \<Rightarrow> 'p jsval) \<Rightarrow> 'p heap \<times> addr" where
  "objectMap h object fn =
     (let (h0, result) = alloc h empty_object in
      (fold (\<lambda>(key, value) hh. set_prop hh result key (fn value key))
            (objectEntries h0 object) h0,
       result))"




text \<open>
  \<open>Object.fromEntries\<close>, the language's inverse of \<open>Object.entries\<close>: the reconstruction
  of an object from its entry list. It creates each property on a new object directly,
  without running setters.
\<close>

definition fromEntries :: "'p heap \<Rightarrow> (string \<times> 'p jsval) list \<Rightarrow> 'p heap \<times> addr" where
  "fromEntries h entries =
     (let (h0, result) = alloc h empty_object in
      (fold (\<lambda>(key, value) hh. define_prop hh result key value) entries h0, result))"

text \<open>
  Two objects are structurally equal when they own the same keys with the same values,
  in whatever order.
\<close>

definition struct_equal :: "'p jsobj \<Rightarrow> 'p jsobj \<Rightarrow> bool" where
  "struct_equal a b =
     (set (map fst (props a)) = set (map fst (props b))
      \<and> (\<forall>k \<in> set (map fst (props a)). map_of (props a) k = map_of (props b) k))"

text \<open>
  The stores the functions are called on: \<open>Object.prototype\<close> is at address \<open>0\<close> and has a
  \<open>null\<close> prototype, no object owns a key twice, and every prototype is an address of
  the store.
\<close>

definition wf_heap :: "'p heap \<Rightarrow> bool" where
  "wf_heap h =
     (h \<noteq> [] \<and> proto (h ! ObjectPrototype) = None
      \<and> list_all (\<lambda>obj. distinct (map fst (props obj))
                         \<and> (case proto obj of None \<Rightarrow> True | Some p \<Rightarrow> p < length h)) h)"

section \<open>src/mods/utils/connect.ts\<close>

text \<open>
  The configuration object of \<open>explicitConnect\<close>: four optional fields (\<open>None\<close> when the
  field is absent, which destructuring reads as \<open>undefined\<close>) and the component.
\<close>

record ('ms, 'md, 'mp, 'o, 'c) explicit_connect_options =
  mapStateToProps :: "'ms option"
  mapDispatchToProps :: "'md option"
  mergeProps :: "'mp option"
  options :: "'o option"
  component :: 'c

text \<open>
  \<open>connect\<close> is the binding function of react-redux, a parameter here. A call of it, and
  a call of the function it returns, can raise and can have effects on the world \<open>'w\<close>
  outside the program's values; both are threaded through.
\<close>

type_synonym ('c, 'r, 'w) enhancer = "'c \<Rightarrow> 'w \<Rightarrow> (js_error + 'r) \<times> 'w"

type_synonym ('ms, 'md, 'mp, 'o, 'c, 'r, 'w) connect_fn =
  "'ms option \<Rightarrow> 'md option \<Rightarrow> 'mp option \<Rightarrow> 'o option \<Rightarrow> 'w
     \<Rightarrow> (js_error + ('c, 'r, 'w) enhancer) \<times> 'w"

text \<open>
  \<open>const { mapStateToProps, mapDispatchToProps, mergeProps, options, component } =
  connectOptions; return connect(mapStateToProps, mapDispatchToProps, mergeProps,
  options)(component)\<close>.
\<close>

definition explicitConnect ::
  "('ms, 'md, 'mp, 'o, 'c, 'r, 'w) connect_fn
     \<Rightarrow> ('ms, 'md, 'mp, 'o, 'c) explicit_connect_options \<Rightarrow> 'w \<Rightarrow> (js_error + 'r) \<times> 'w" where
  "explicitConnect connect connectOptions w =
     (let mapStateToProps' = mapStateToProps connectOptions;
          mapDispatchToProps' = mapDispatchToProps connectOptions;
          mergeProps' = mergeProps connectOptions;
          options' = options connectOptions;
          component' = component connectOptions
      in case connect mapStateToProps' mapDispatchToProps' mergeProps' options' w of
           (Inl e, w') \<Rightarrow> (Inl e, w')
         | (Inr enhance, w') \<Rightarrow> enhance component' w')"

section \<open>Behaviour as the specification words it\<close>

text \<open>
  The specification's account of \<open>explicitConnect\<close>: the underlying binding function
  called directly with the five values in positional order, and its result applied to
  the component.
\<close>

definition connect_directly ::
  "('ms, 'md, 'mp, 'o, 'c, 'r, 'w) connect_fn
     \<Rightarrow> 'ms option \<Rightarrow> 'md option \<Rightarrow> 'mp option \<Rightarrow> 'o option \<Rightarrow> 'c \<Rightarrow> 'w
     \<Rightarrow> (js_error + 'r) \<times> 'w" where
  "connect_directly connect ms md mp opts c w =
     (case connect ms md mp opts w of
        (Inl e, w') \<Rightarrow> (Inl e, w')
      | (Inr enhance, w') \<Rightarrow> enhance c w')"

section \<open>Conditions and example values used in the statements\<close>



text \<open>
  Some kinds of run-time value and the string conversion that a template literal applies
  to them (numbers and objects are left out). A Symbol has no such conversion: the
  runtime raises a \<open>TypeError\<close>.
\<close>

datatype js_value = VUndefined | VNull | VBool bool | VString string | VSymbol string

fun to_string :: "js_value \<Rightarrow> js_error + string" where
  "to_string VUndefined = Inr ''undefined''"
| "to_string VNull = Inr ''null''"
| "to_string (VBool b) = Inr (if b then ''true'' else ''false'')"
| "to_string (VString s) = Inr s"
| "to_string (VSymbol description) = Inl (TypeError ''Cannot convert a Symbol value to a string'')"

text \<open>The callback \<open>(v) => v * 2\<close> on whole numbers.\<close>

definition double_value :: "int jsval \<Rightarrow> string \<Rightarrow> int jsval" where
  "double_value v k = (case v of JValue (Prim n) \<Rightarrow> JValue (Prim (n * 2)) | _ \<Rightarrow> v)"

text \<open>A store holding \<open>Object.prototype\<close> and the object \<open>{a: 1, b: 2}\<close>.\<close>

definition heap_ab :: "int heap" where
  "heap_ab =
     [\<lparr>props = [], proto = None\<rparr>,
      \<lparr>props = [(''a'', JValue (Prim 1)), (''b'', JValue (Prim 2))],
       proto = Some ObjectPrototype\<rparr>]"

text \<open>
  A store holding \<open>Object.prototype\<close> and the object that
  \<open>JSON.parse('{"__proto__": 1, "b": 2}')\<close> returns: it owns a key named \<open>__proto__\<close>.
\<close>

definition heap_proto_key :: "int heap" where
  "heap_proto_key =
     [\<lparr>props = [], proto = None\<rparr>,
      \<lparr>props = [(''__proto__'', JValue (Prim 1)), (''b'', JValue (Prim 2))],
       proto = Some ObjectPrototype\<rparr>]"



section \<open>Closed-set conversion and the assertions\<close>

lemma in_transform_types:
  "s \<in> set transform_types \<longleftrightarrow>
     (s = ''merge-call-node'' \<or> s = ''merge-function'' \<or> s = ''focus-subtree''
      \<or> s = ''focus-function'' \<or> s = ''focus-category'' \<or> s = ''collapse-resource''
      \<or> s = ''collapse-direct-recursion'' \<or> s = ''collapse-indirect-recursion''
      \<or> s = ''collapse-function-subtree'' \<or> s = ''drop-function'')"
  by (simp add: transform_types_def)

lemma convertToTransformType_if:
  "convertToTransformType s = (if s \<in> set transform_types then Inr (JValue s) else Inr JNull)"
  unfolding in_transform_types convertToTransformType_def Let_def by (rule refl)

lemma no_recognized_prefix:
  "t \<in> set transform_types \<Longrightarrow> p \<in> set transform_types \<Longrightarrow> prefix p t \<Longrightarrow> p = t"
  unfolding in_transform_types by (elim disjE) simp_all

lemma no_recognized_suffix:
  "t \<in> set transform_types \<Longrightarrow> p \<in> set transform_types \<Longrightarrow> suffix p t \<Longrightarrow> p = t"
  unfolding in_transform_types suffix_to_prefix by (elim disjE) simp_all

text \<open>
  C1. For every string \<open>s\<close>, \<open>convertToTransformType s\<close> returns \<open>s\<close> itself exactly when
  \<open>s\<close> is one of the ten recognized literal values, compared character by character with
  no normalization; for every other string it returns \<open>null\<close>, in particular for the
  empty string and for every proper prefix and proper suffix of a recognized value.
\<close>

theorem convertToTransformType_exact:
  "(convertToTransformType s = Inr (JValue s)) = (s \<in> set transform_types)
   \<and> (convertToTransformType s = Inr JNull) = (s \<notin> set transform_types)
   \<and> convertToTransformType [] = Inr JNull
   \<and> (\<forall>t \<in> set transform_types.
         strict_prefix s t \<or> strict_suffix s t \<longrightarrow> convertToTransformType s = Inr JNull)"
proof -
  have "convertToTransformType s = Inr JNull"
    if "t \<in> set transform_types" "strict_prefix s t \<or> strict_suffix s t" for t
    using that no_recognized_prefix [of t s] no_recognized_suffix [of t s]
    by (auto simp: convertToTransformType_if strict_prefix_def strict_suffix_def)
  moreover have "convertToTransformType [] = Inr JNull"
    by (simp add: convertToTransformType_def)
  ultimately show ?thesis
    by (simp add: convertToTransformType_if)
qed

text \<open>
  A recognized value, a variant of it in another case, a proper prefix and a proper
  suffix of it.
\<close>

theorem convertToTransformType_exact_witness:
  "''drop-function'' \<in> set transform_types
   \<and> convertToTransformType ''drop-function'' = Inr (JValue ''drop-function'')
   \<and> ''Drop-Function'' \<notin> set transform_types
   \<and> convertToTransformType ''Drop-Function'' = Inr JNull
   \<and> strict_prefix ''drop-'' ''drop-function''
   \<and> convertToTransformType ''drop-'' = Inr JNull
   \<and> strict_suffix ''function'' ''drop-function''
   \<and> convertToTransformType ''function'' = Inr JNull"
proof -
  have r: "''drop-function'' \<in> set transform_types"
    by (simp add: transform_types_def)
  have c: "''Drop-Function'' \<notin> set transform_types"
    by (simp add: transform_types_def)
  have p: "strict_prefix ''drop-'' ''drop-function''"
    by (simp add: strict_prefix_def)
  have q: "strict_suffix ''function'' ''drop-function''"
    by (simp add: strict_suffix_def suffix_to_prefix)
  show ?thesis
    using r c p q convertToTransformType_exact [of "''drop-function''"]
      convertToTransformType_exact [of "''Drop-Function''"]
      convertToTransformType_exact [of "''drop-''"]
      convertToTransformType_exact [of "''function''"]
    by blast
qed

text \<open>
  C2. \<open>ensureExists\<close>, given \<open>null\<close> and no message, raises an error whose message
  contains the word \<open>null\<close>; given \<open>undefined\<close> and no message, raises an error whose
  message contains \<open>undefined\<close>; given any other value, whatever the message argument,
  returns that value unchanged and does not raise.
\<close>

theorem ensureExists_default_messages:
  "ensureExists (JNull :: 'a nullable) JUndefined
     = Inl (Error ''Expected an item to exist, and it was null.'')
   \<and> sublist ''null'' ''Expected an item to exist, and it was null.''
   \<and> ensureExists (JUndefined :: 'a nullable) JUndefined
     = Inl (Error ''Expected an item to exist, and it was undefined.'')
   \<and> sublist ''undefined'' ''Expected an item to exist, and it was undefined.''
   \<and> ensureExists (JValue v) message = Inr v"
proof -
  have n: "sublist ''null'' ''Expected an item to exist, and it was null.''"
    by code_simp
  have u: "sublist ''undefined'' ''Expected an item to exist, and it was undefined.''"
    by code_simp
  show ?thesis using n u by (simp add: ensureExists_def)
qed

text \<open>The values \<open>0\<close>, \<open>false\<close> and the empty string are returned as they are.\<close>

theorem ensureExists_default_messages_witness:
  "ensureExists (JValue (0::int)) JUndefined = Inr 0
   \<and> ensureExists (JValue False) JUndefined = Inr False
   \<and> ensureExists (JValue ([] :: string)) JUndefined = Inr []"
  using ensureExists_default_messages [of "0::int" JUndefined]
    ensureExists_default_messages [of False JUndefined]
    ensureExists_default_messages [of "[] :: string" JUndefined]
  by blast

text \<open>
  C10. When \<open>ensureExists\<close> is called on \<open>null\<close> or \<open>undefined\<close> with the empty string
  or \<open>null\<close> as the message, the error carries the built-in default message and not the
  supplied one: the message is chosen by its truthiness.
\<close>

theorem ensureExists_falsy_message:
  "ensureExists (JNull :: 'a nullable) (JValue [])
     = Inl (Error ''Expected an item to exist, and it was null.'')
   \<and> ensureExists (JNull :: 'a nullable) JNull
     = Inl (Error ''Expected an item to exist, and it was null.'')
   \<and> ensureExists (JUndefined :: 'a nullable) (JValue [])
     = Inl (Error ''Expected an item to exist, and it was undefined.'')
   \<and> ensureExists (JUndefined :: 'a nullable) JNull
     = Inl (Error ''Expected an item to exist, and it was undefined.'')"
  by (simp add: ensureExists_def)

text \<open>
  C3, as amended. \<open>assertExhaustiveCheck\<close> raises whenever it is called, whatever the
  value; the error carries the supplied message when there is one; otherwise, when the
  value has a string form, it carries the default message, which embeds that string
  form between double quotes, and when the conversion of the value to a string raises,
  the error of the conversion is the one raised.
\<close>

theorem assertExhaustiveCheck_always_raises:
  "isl (assertExhaustiveCheck toStr v errorMessage)
   \<and> assertExhaustiveCheck toStr v (Some m) = Inl (Error m)
   \<and> (toStr v = Inr s \<longrightarrow>
        assertExhaustiveCheck toStr v None
          = Inl (Error (''There was an unhandled case for the value: ''
                          @ [CHR 0x22] @ s @ [CHR 0x22])))
   \<and> (toStr v = Inl e \<longrightarrow> assertExhaustiveCheck toStr v None = Inl e)"
  by (simp add: assertExhaustiveCheck_def unhandled_case_message_def
        split: option.split sum.split)

theorem assertExhaustiveCheck_always_raises_witness:
  "to_string (VString ''zoom'') = Inr ''zoom''
   \<and> isl (assertExhaustiveCheck to_string (VString ''zoom'') None)
   \<and> assertExhaustiveCheck to_string (VString ''zoom'') (Some ''no such transform'')
       = Inl (Error ''no such transform'')
   \<and> assertExhaustiveCheck to_string (VString ''zoom'') None
       = Inl (Error (''There was an unhandled case for the value: ''
                       @ [CHR 0x22] @ ''zoom'' @ [CHR 0x22]))
   \<and> to_string VNull = Inr ''null''
   \<and> assertExhaustiveCheck to_string VNull None
       = Inl (Error (''There was an unhandled case for the value: ''
                       @ [CHR 0x22] @ ''null'' @ [CHR 0x22]))
   \<and> to_string (VSymbol ''s'') = Inl (TypeError ''Cannot convert a Symbol value to a string'')
   \<and> isl (assertExhaustiveCheck to_string (VSymbol ''s'') None)
   \<and> assertExhaustiveCheck to_string (VSymbol ''s'') (Some ''no such transform'')
       = Inl (Error ''no such transform'')"
  using assertExhaustiveCheck_always_raises
      [of to_string "VString ''zoom''" None "''no such transform''" "''zoom''"]
    assertExhaustiveCheck_always_raises
      [of to_string VNull None _ "''null''"]
    assertExhaustiveCheck_always_raises
      [of to_string "VSymbol ''s''" None "''no such transform''" _
          "TypeError ''Cannot convert a Symbol value to a string''"]
  by simp

text \<open>
  C3 as stated fails on a Symbol passed without a message: the error raised is the
  \<open>TypeError\<close> of the string conversion, and it carries no default message.
\<close>

theorem assertExhaustiveCheck_symbol_counterexample:
  "assertExhaustiveCheck to_string (VSymbol ''tag'') None
     = Inl (TypeError ''Cannot convert a Symbol value to a string'')"
  by (simp add: assertExhaustiveCheck_def)

text \<open>
  C5. \<open>convertToTransformType\<close> lists all ten recognized values in its branching, each
  of which it returns; in the fallback branch, reached by every other string, the
  exhaustiveness assertion is a static guard only (the run-time assertion would raise on
  that string) and the branch returns \<open>null\<close> rather than raising; so
  \<open>convertToTransformType\<close> never raises, for any input string.
\<close>

theorem convertToTransformType_never_raises:
  "convertToTransformType s \<noteq> Inl e
   \<and> list_all (\<lambda>t. convertToTransformType t = Inr (JValue t)) transform_types
   \<and> (s \<notin> set transform_types \<longrightarrow>
        convertToTransformType s = Inr JNull \<and> isl (assertExhaustiveCheck Inr s None))"
proof -
  have "list_all (\<lambda>t. convertToTransformType t = Inr (JValue t)) transform_types"
    by (simp add: convertToTransformType_if list_all_iff)
  then show ?thesis
    by (simp add: convertToTransformType_if assertExhaustiveCheck_def)
qed

theorem convertToTransformType_never_raises_witness:
  "''bogus'' \<notin> set transform_types
   \<and> convertToTransformType ''bogus'' \<noteq> Inl (Error ''x'')
   \<and> convertToTransformType ''bogus'' = Inr JNull
   \<and> isl (assertExhaustiveCheck Inr ''bogus'' None)"
proof -
  have n: "''bogus'' \<notin> set transform_types" by (simp add: transform_types_def)
  show ?thesis
    using n convertToTransformType_never_raises [of "''bogus''" "Error ''x''"] by simp
qed

section \<open>The binding wrapper\<close>

text \<open>
  C4. \<open>explicitConnect\<close>, applied to a configuration, is the call of the underlying
  \<open>connect\<close> with the four optional fields in positional order followed by the call of
  its result on the component: the same value or error, and the same effects, for every
  \<open>connect\<close>; an absent field is handed on as it is.
\<close>

theorem explicitConnect_is_connect:
  "explicitConnect connect connectOptions w
     = connect_directly connect (mapStateToProps connectOptions)
         (mapDispatchToProps connectOptions) (mergeProps connectOptions)
         (options connectOptions) (component connectOptions) w"
  by (simp add: explicitConnect_def connect_directly_def)

section \<open>First item of a set\<close>

text \<open>
  C8, as amended. \<open>getFirstItemFromSet\<close> returns \<open>undefined\<close> on the empty set; on a
  non-empty set it returns a member of the set; and on a set that does not hold the
  value \<open>undefined\<close> as a member it returns \<open>undefined\<close> if and only if the set is empty.
\<close>

theorem getFirstItemFromSet_member:
  "getFirstItemFromSet ([] :: 'a nullable list) = JUndefined
   \<and> (s \<noteq> [] \<longrightarrow> getFirstItemFromSet s \<in> set s)
   \<and> (JUndefined \<notin> set s \<longrightarrow> (getFirstItemFromSet s = JUndefined) = (s = []))"
  by (cases s) (auto simp: getFirstItemFromSet_def)

theorem getFirstItemFromSet_member_witness:
  "[JValue (3::nat), JNull] \<noteq> [] \<and> JUndefined \<notin> set [JValue (3::nat), JNull]
   \<and> getFirstItemFromSet [JValue (3::nat), JNull] \<in> set [JValue (3::nat), JNull]
   \<and> getFirstItemFromSet [JValue (3::nat), JNull] \<noteq> JUndefined"
  using getFirstItemFromSet_member [of "[JValue (3::nat), JNull]"] by auto

text \<open>
  C8 as stated fails on the set whose only member is the value \<open>undefined\<close>: the set is
  not empty and the result is \<open>undefined\<close>.
\<close>

theorem getFirstItemFromSet_undefined_member:
  "getFirstItemFromSet [JUndefined :: nat nullable] = JUndefined
   \<and> [JUndefined :: nat nullable] \<noteq> []"
  by (simp add: getFirstItemFromSet_def)

section \<open>Objects: entries, mapping and assignment\<close>

subsection \<open>Creating and assigning properties on the newest object\<close>

lemma update_fresh_key: "k \<notin> fst ` set ps \<Longrightarrow> AList.update k v ps = ps @ [(k, v)]"
  by (induction ps) auto

lemma define_prop_last:
  "define_prop (h @ [obj]) (length h) k v = h @ [obj\<lparr>props := AList.update k v (props obj)\<rparr>]"
  by (simp add: define_prop_def)

lemma fold_define_prop_last:
  "fold (\<lambda>(k, v) hh. define_prop hh (length h) k v) es (h @ [obj])
     = h @ [obj\<lparr>props := fold (\<lambda>(k, v). AList.update k v) es (props obj)\<rparr>]"
proof (induction es arbitrary: obj)
  case Nil
  show ?case by simp
next
  case (Cons e es)
  obtain k v where e: "e = (k, v)" by (cases e)
  show ?case by (simp add: e define_prop_last Cons.IH)
qed

lemma fold_update_distinct:
  "distinct (map fst es) \<Longrightarrow> fst ` set es \<inter> fst ` set ps = {}
     \<Longrightarrow> fold (\<lambda>(k, v). AList.update k v) es ps = ps @ es"
proof (induction es arbitrary: ps)
  case Nil
  show ?case by simp
next
  case (Cons e es)
  obtain k v where e: "e = (k, v)" by (cases e)
  from Cons.prems have fresh: "k \<notin> fst ` set ps" by (auto simp: e)
  from Cons.prems have d: "distinct (map fst es)" by simp
  from Cons.prems have disj: "fst ` set es \<inter> fst ` set (ps @ [(k, v)]) = {}"
    by (auto simp: e)
  show ?case using Cons.IH [OF d disj] by (simp add: e update_fresh_key [OF fresh])
qed


lemma set_prop_plain_key:
  "k \<noteq> ''__proto__'' \<Longrightarrow>
     set_prop (h @ [obj]) (length h) k v = h @ [obj\<lparr>props := AList.update k v (props obj)\<rparr>]"
  by (simp add: set_prop_def define_prop_last)

text \<open>
  On an object that inherits from \<open>Object.prototype\<close> and owns no key \<open>__proto__\<close>, the
  assignment to \<open>__proto__\<close> creates no property: at most the prototype changes.
\<close>

lemma set_prop_proto_key:
  assumes "''__proto__'' \<notin> fst ` set (props obj)" "proto obj = Some ObjectPrototype"
  shows "\<exists>pr. set_prop (h @ [obj]) (length h) ''__proto__'' v = h @ [obj\<lparr>proto := pr\<rparr>]"
proof -
  have "set_prop (h @ [obj]) (length h) ''__proto__'' v = proto_setter (h @ [obj]) (length h) v"
    using assms by (simp add: set_prop_def)
  moreover have "\<exists>pr. proto_setter (h @ [obj]) (length h) v = h @ [obj\<lparr>proto := pr\<rparr>]"
  proof (cases v)
    case JUndefined
    have "obj = obj\<lparr>proto := proto obj\<rparr>" by simp
    then show ?thesis unfolding proto_setter_def JUndefined
      by (auto intro: exI [of _ "proto obj"])
  next
    case JNull
    show ?thesis unfolding proto_setter_def JNull by (rule exI [of _ None]) simp
  next
    case (JValue c)
    show ?thesis
    proof (cases c)
      case (Prim p)
      then show ?thesis unfolding proto_setter_def JValue
        by (auto intro: exI [of _ "proto obj"])
    next
      case (Ref r)
      show ?thesis unfolding proto_setter_def JValue Ref by (rule exI [of _ "Some r"]) simp
    qed
  qed
  ultimately show ?thesis by simp
qed

lemma wf_heap_distinct: "wf_heap h \<Longrightarrow> a < length h \<Longrightarrow> distinct (map fst (props (h ! a)))"
  by (simp add: wf_heap_def list_all_length)

lemma struct_equal_map_of: "struct_equal a b \<longleftrightarrow> map_of (props a) = map_of (props b)"
proof
  assume eq: "struct_equal a b"
  show "map_of (props a) = map_of (props b)"
  proof
    fix k
    show "map_of (props a) k = map_of (props b) k"
    proof (cases "k \<in> set (map fst (props a))")
      case True
      with eq show ?thesis unfolding struct_equal_def by blast
    next
      case False
      with eq have "k \<notin> fst ` set (props a)" "k \<notin> fst ` set (props b)"
        by (auto simp: struct_equal_def)
      then have "map_of (props a) k = None" "map_of (props b) k = None"
        by (simp_all add: map_of_eq_None_iff)
      then show ?thesis by simp
    qed
  qed
next
  assume eq: "map_of (props a) = map_of (props b)"
  have "fst ` set (props a) = fst ` set (props b)"
    using eq by (metis dom_map_of_conv_image_fst)
  then show "struct_equal a b" using eq by (simp add: struct_equal_def)
qed

subsection \<open>objectEntries and its round trip\<close>

lemma fromEntries_objectEntries:
  assumes "wf_heap h" "object < length h"
  shows "fromEntries h (objectEntries h object)
           = (h @ [\<lparr>props = props (h ! object), proto = Some ObjectPrototype\<rparr>], length h)"
proof -
  have d: "distinct (map fst (props (h ! object)))"
    using assms by (rule wf_heap_distinct)
  have "fold (\<lambda>(k, v). AList.update k v) (props (h ! object)) [] = props (h ! object)"
    using fold_update_distinct [OF d, of "[]"] by simp
  then show ?thesis
    by (simp add: fromEntries_def alloc_def objectEntries_def fold_define_prop_last
          empty_object_def)
qed

text \<open>
  C7. For every string-keyed bag (an object of a well-formed store), the object
  reconstructed from \<open>objectEntries\<close> of the bag is structurally equal to the bag; it is a
  new object, and the bag is as it was.
\<close>

theorem objectEntries_round_trip:
  "wf_heap h \<Longrightarrow> object < length h \<Longrightarrow>
     (case fromEntries h (objectEntries h object) of
        (h', rebuilt) \<Rightarrow>
          struct_equal (h' ! rebuilt) (h' ! object) \<and> h' ! object = h ! object
          \<and> rebuilt \<noteq> object)"
  by (simp add: fromEntries_objectEntries nth_append struct_equal_map_of)

theorem objectEntries_round_trip_witness:
  "wf_heap heap_ab \<and> 1 < length heap_ab \<and>
     (case fromEntries heap_ab (objectEntries heap_ab 1) of
        (h', rebuilt) \<Rightarrow>
          struct_equal (h' ! rebuilt) (h' ! 1) \<and> h' ! 1 = heap_ab ! 1 \<and> rebuilt \<noteq> 1)"
proof -
  have w: "wf_heap heap_ab" by (simp add: wf_heap_def heap_ab_def ObjectPrototype_def)
  have l: "1 < length heap_ab" by (simp add: heap_ab_def)
  show ?thesis using w l objectEntries_round_trip [OF w l] by simp
qed

subsection \<open>objectMap\<close>

text \<open>
  The loop of \<open>objectMap\<close> on the object it has just created: every entry becomes a
  property of the result except an entry whose key is \<open>__proto__\<close>, which goes to the
  prototype setter.
\<close>

lemma objectMap_loop:
  assumes "distinct (map fst es)" "fst ` set es \<inter> fst ` set (props obj) = {}"
    "''__proto__'' \<notin> fst ` set (props obj)"
    "''__proto__'' \<in> fst ` set es \<longrightarrow> proto obj = Some ObjectPrototype"
  shows "\<exists>pr. fold (\<lambda>(key, value) hh. set_prop hh (length h) key (fn value key)) es (h @ [obj])
           = h @ [\<lparr>props = props obj @ map (\<lambda>(k, v). (k, fn v k))
                                          (filter (\<lambda>(k, v). k \<noteq> ''__proto__'') es),
                   proto = pr\<rparr>]"
  using assms
proof (induction es arbitrary: obj)
  case Nil
  have "obj = \<lparr>props = props obj, proto = proto obj\<rparr>" by simp
  then show ?case by (auto intro: exI [of _ "proto obj"])
next
  case (Cons e es)
  obtain k v where e: "e = (k, v)" by (cases e)
  from Cons.prems have d: "distinct (map fst es)" and knew: "k \<notin> fst ` set es"
    and kfresh: "k \<notin> fst ` set (props obj)"
    by (auto simp: e)
  show ?case
  proof (cases "k = ''__proto__''")
    case True
    with Cons.prems have pr: "proto obj = Some ObjectPrototype" by (simp add: e)
    from set_prop_proto_key [OF Cons.prems(3) pr] obtain pr' where
      step: "set_prop (h @ [obj]) (length h) ''__proto__'' (fn v k) = h @ [obj\<lparr>proto := pr'\<rparr>]"
      by blast
    have "\<exists>pr. fold (\<lambda>(key, value) hh. set_prop hh (length h) key (fn value key)) es
                  (h @ [obj\<lparr>proto := pr'\<rparr>])
           = h @ [\<lparr>props = props (obj\<lparr>proto := pr'\<rparr>) @ map (\<lambda>(k, v). (k, fn v k))
                                          (filter (\<lambda>(k, v). k \<noteq> ''__proto__'') es),
                   proto = pr\<rparr>]"
      using Cons.prems d knew True by (intro Cons.IH) (auto simp: e)
    then show ?thesis using step by (simp add: e True)
  next
    case False
    let ?obj = "obj\<lparr>props := props obj @ [(k, fn v k)]\<rparr>"
    have step: "set_prop (h @ [obj]) (length h) k (fn v k) = h @ [?obj]"
      by (simp add: set_prop_plain_key [OF False] update_fresh_key [OF kfresh])
    have "\<exists>pr. fold (\<lambda>(key, value) hh. set_prop hh (length h) key (fn value key)) es
                  (h @ [?obj])
           = h @ [\<lparr>props = props ?obj @ map (\<lambda>(k, v). (k, fn v k))
                                          (filter (\<lambda>(k, v). k \<noteq> ''__proto__'') es),
                   proto = pr\<rparr>]"
      using Cons.prems d knew False by (intro Cons.IH) (auto simp: e)
    then show ?thesis by (simp add: e False step)
  qed
qed

text \<open>
  What \<open>objectMap\<close> returns on any bag of a well-formed store: a new object at the next
  address, the store below it untouched, whose properties are the transformed entries
  of the input other than an entry with the key \<open>__proto__\<close>.
\<close>

lemma objectMap_result:
  assumes "wf_heap h" "object < length h"
  shows "\<exists>pr. objectMap h object fn
           = (h @ [\<lparr>props = map (\<lambda>(k, v). (k, fn v k))
                              (filter (\<lambda>(k, v). k \<noteq> ''__proto__'') (props (h ! object))),
                    proto = pr\<rparr>], length h)"
proof -
  have d: "distinct (map fst (props (h ! object)))"
    using assms by (rule wf_heap_distinct)
  have "\<exists>pr. fold (\<lambda>(key, value) hh. set_prop hh (length h) key (fn value key))
               (props (h ! object)) (h @ [empty_object])
           = h @ [\<lparr>props = props (empty_object :: 'a jsobj) @ map (\<lambda>(k, v). (k, fn v k))
                              (filter (\<lambda>(k, v). k \<noteq> ''__proto__'') (props (h ! object))),
                   proto = pr\<rparr>]"
    by (rule objectMap_loop) (simp_all add: d empty_object_def)
  then show ?thesis using assms
    by (simp add: objectMap_def alloc_def objectEntries_def nth_append empty_object_def)
qed

text \<open>
  On a bag that owns no key \<open>__proto__\<close> the result has exactly the keys of the input,
  each with the transformed value, and the input is as it was.
\<close>

lemma objectMap_same_keys:
  assumes "wf_heap h" "object < length h"
    "''__proto__'' \<notin> fst ` set (props (h ! object))"
  shows "case objectMap h object fn of
           (h', result) \<Rightarrow>
             result = length h \<and> (\<forall>a < length h. h' ! a = h ! a)
             \<and> props (h' ! result) = map (\<lambda>(k, v). (k, fn v k)) (props (h ! object))"
proof -
  have "filter (\<lambda>(k, v). k \<noteq> ''__proto__'') (props (h ! object)) = props (h ! object)"
    using assms(3) by (intro filter_True) (auto simp: image_iff)
  with objectMap_result [OF assms(1,2), of fn] show ?thesis
    by (auto simp: nth_append)
qed

text \<open>The example of the specification: \<open>{a: 1, b: 2}\<close> and \<open>(v) => v * 2\<close>.\<close>

lemma objectMap_example:
  "objectMap heap_ab 1 double_value
     = (heap_ab @ [\<lparr>props = [(''a'', JValue (Prim 2)), (''b'', JValue (Prim 4))],
                    proto = Some ObjectPrototype\<rparr>], 2)"
  by (simp add: objectMap_def alloc_def heap_ab_def objectEntries_def empty_object_def
        set_prop_def define_prop_def double_value_def ObjectPrototype_def)

text \<open>
  C6, at the bag \<open>{"__proto__": 1, "b": 2}\<close> (its own keys are \<open>__proto__\<close> and \<open>b\<close>) and
  the callback \<open>(v) => v * 2\<close>: the object that \<open>objectMap\<close> returns owns the key \<open>b\<close>
  only. The key \<open>__proto__\<close> of the input has no counterpart in the result, which the
  claim says has exactly the keys of the input.
\<close>

theorem objectMap_drops_proto_key:
  "wf_heap heap_proto_key
   \<and> map fst (objectEntries heap_proto_key 1) = [''__proto__'', ''b'']
   \<and> objectMap heap_proto_key 1 double_value
       = (heap_proto_key @ [\<lparr>props = [(''b'', JValue (Prim 4))],
                             proto = Some ObjectPrototype\<rparr>], 2)"
  by (simp add: objectMap_def alloc_def heap_proto_key_def objectEntries_def empty_object_def
        set_prop_def define_prop_def double_value_def ObjectPrototype_def proto_setter_def
        wf_heap_def)

subsection \<open>immutableUpdate\<close>









end
